theory Spec2Isabelle
  imports Complex_Main "HOL-Library.Word"
begin

section \<open>Layers of the cuDNN backend (neural/cuda/layers.h)\<close>

text \<open>
  The header declares a base class template \<open>BaseLayer<DataType>\<close> and seven layer
  classes derived from it. Only the accessors and \<open>GetOutputSize\<close> have bodies in the
  header; constructors, destructors, \<open>LoadWeights\<close> and \<open>Eval\<close> are declared there and
  defined elsewhere.
\<close>

subsection \<open>Machine types\<close>

text \<open>
  \<open>int\<close> is a 32-bit two's complement integer, \<open>size_t\<close> a 64-bit unsigned one (the
  backend targets 64-bit hosts). A pointer is an address or \<open>nullptr\<close> (\<open>None\<close>).
\<close>

type_synonym int32 = "32 word"
type_synonym size_t = "64 word"
type_synonym pointer = "nat option"

text \<open>
  The template parameter \<open>DataType\<close>: the pipeline's element type, 32-bit \<open>float\<close> or
  16-bit \<open>half\<close>, with the value of \<open>sizeof(DataType)\<close>.
\<close>

datatype DataType = float | half

fun sizeof :: "DataType \<Rightarrow> size_t" where
  "sizeof float = 4"
| "sizeof half = 2"

subsection \<open>BaseLayer\<close>

text \<open>
  \<^verbatim>\<open>
  BaseLayer* input_;
  int C;  // Output tensor dimensions.
  int H;
  int W;
  \<close>
  Every derived class extends this record, so a function on \<open>'a BaseLayer_scheme\<close> is a
  member function inherited by every layer kind. In the records the trailing underscore
  of a member name is dropped (\<open>input_\<close> is the field \<open>input\<close>).
\<close>

record BaseLayer =
  input :: pointer
  C :: int32
  H :: int32
  W :: int32

definition GetC :: "'a BaseLayer_scheme \<Rightarrow> int32" where
  "GetC L = C L"

definition GetH :: "'a BaseLayer_scheme \<Rightarrow> int32" where
  "GetH L = H L"

definition GetW :: "'a BaseLayer_scheme \<Rightarrow> int32" where
  "GetW L = W L"

text \<open>
  \<^verbatim>\<open>size_t GetOutputSize(int N) const { return sizeof(DataType) * N * C * H * W; }\<close>
  The product is evaluated left to right in \<open>size_t\<close>: each \<open>int\<close> operand is converted
  to \<open>size_t\<close> (sign extension, \<open>scast\<close>) and every multiplication wraps modulo \<open>2^64\<close>.
\<close>

definition GetOutputSize :: "DataType \<Rightarrow> 'a BaseLayer_scheme \<Rightarrow> int32 \<Rightarrow> size_t" where
  "GetOutputSize dt L N =
     sizeof dt * scast N * scast (C L) * scast (H L) * scast (W L)"

section \<open>The declarations of the header\<close>

text \<open>
  Most of the header is declarations: data members with their types and default member
  initialisers, and member functions with their parameter lists. They are transcribed
  here as data, class by class and in the order of the header, so that statements about
  the interface (which members exist, of which type, with which initialiser) can be
  computed. Access specifiers and the \<open>virtual\<close>, \<open>override\<close> and \<open>const\<close> qualifiers of
  member functions are left out.
\<close>

datatype ctype =
    T_void
  | T_bool
  | T_int
  | T_size_t
  | T_elem DataType                     \<comment> \<open>\<open>float\<close>, \<open>half\<close>\<close>
  | T_DataType                          \<comment> \<open>the template parameter\<close>
  | T_BaseLayer                         \<comment> \<open>\<open>BaseLayer\<close>, \<open>BaseLayer<DataType>\<close>\<close>
  | T_cudnnHandle_t
  | T_cublasHandle_t
  | T_cudnnFilterDescriptor_t
  | T_cudnnConvolutionDescriptor_t
  | T_cudnnConvolutionFwdAlgo_t
  | T_cudnnTensorDescriptor_t
  | T_cudnnActivationDescriptor_t
  | T_const ctype
  | T_ptr ctype

datatype initialiser = init_nullptr | init_false

record declarator =
  d_type :: ctype
  d_name :: string
  d_init :: "initialiser option"

datatype fun_kind = Constructor | Destructor | MemberFunction

record fun_decl =
  f_kind :: fun_kind
  f_ret :: "ctype option"
  f_name :: string
  f_params :: "declarator list"

record class_decl =
  c_name :: string
  c_base :: "string option"
  c_data :: "declarator list"
  c_funs :: "fun_decl list"

definition var :: "ctype \<Rightarrow> string \<Rightarrow> declarator" where
  "var t n = \<lparr>d_type = t, d_name = n, d_init = None\<rparr>"

definition var_init :: "ctype \<Rightarrow> string \<Rightarrow> initialiser \<Rightarrow> declarator" where
  "var_init t n i = \<lparr>d_type = t, d_name = n, d_init = Some i\<rparr>"

definition ctor :: "string \<Rightarrow> declarator list \<Rightarrow> fun_decl" where
  "ctor n ps = \<lparr>f_kind = Constructor, f_ret = None, f_name = n, f_params = ps\<rparr>"

definition dtor :: "string \<Rightarrow> fun_decl" where
  "dtor n = \<lparr>f_kind = Destructor, f_ret = None, f_name = n, f_params = []\<rparr>"

definition member_fun :: "ctype \<Rightarrow> string \<Rightarrow> declarator list \<Rightarrow> fun_decl" where
  "member_fun t n ps = \<lparr>f_kind = MemberFunction, f_ret = Some t, f_name = n, f_params = ps\<rparr>"

text \<open>
  \<^verbatim>\<open>
  // input2 is optional (skip connection).
  virtual void Eval(int N, DataType* output, const DataType* input,
                    const DataType* input2, void* scratch, size_t scratch_size,
                    cudnnHandle_t cudnn, cublasHandle_t cublas) = 0;
  \<close>
  Every derived class repeats this declaration (with \<open>override\<close>).
\<close>

definition Eval_decl :: fun_decl where
  "Eval_decl = member_fun T_void ''Eval''
     [var T_int ''N'',
      var (T_ptr T_DataType) ''output'',
      var (T_ptr (T_const T_DataType)) ''input'',
      var (T_ptr (T_const T_DataType)) ''input2'',
      var (T_ptr T_void) ''scratch'',
      var T_size_t ''scratch_size'',
      var T_cudnnHandle_t ''cudnn'',
      var T_cublasHandle_t ''cublas'']"

definition BaseLayer_decl :: class_decl where
  "BaseLayer_decl = \<lparr>
     c_name = ''BaseLayer'',
     c_base = None,
     c_data =
       [var (T_ptr T_BaseLayer) ''input_'',
        var T_int ''C'',
        var T_int ''H'',
        var T_int ''W''],
     c_funs =
       [member_fun T_int ''GetC'' [],
        member_fun T_int ''GetH'' [],
        member_fun T_int ''GetW'' [],
        ctor ''BaseLayer''
          [var T_int ''c'', var T_int ''h'', var T_int ''w'', var (T_ptr T_BaseLayer) ''ip''],
        member_fun T_size_t ''GetOutputSize'' [var T_int ''N''],
        Eval_decl]\<rparr>"

definition ConvLayer_decl :: class_decl where
  "ConvLayer_decl = \<lparr>
     c_name = ''ConvLayer'',
     c_base = Some ''BaseLayer'',
     c_data =
       [var (T_const T_int) ''c_input_'',
        var (T_const T_int) ''filter_size_'',
        var (T_const T_bool) ''use_relu_'',
        var (T_const T_bool) ''use_bias_'',
        var_init (T_ptr T_DataType) ''biases'' init_nullptr,
        var_init (T_ptr T_DataType) ''weights'' init_nullptr,
        var T_cudnnFilterDescriptor_t ''filter_desc_'',
        var T_cudnnConvolutionDescriptor_t ''conv_desc_'',
        var T_cudnnConvolutionFwdAlgo_t ''conv_algo_'',
        var T_cudnnTensorDescriptor_t ''bias_desc_'',
        var T_cudnnTensorDescriptor_t ''in_tensor_desc_'',
        var T_cudnnTensorDescriptor_t ''out_tensor_desc_'',
        var T_cudnnActivationDescriptor_t ''activation_''],
     c_funs =
       [ctor ''ConvLayer''
          [var (T_ptr T_BaseLayer) ''ip'', var T_int ''C'', var T_int ''H'', var T_int ''W'',
           var T_int ''size'', var T_int ''Cin'',
           var_init T_bool ''relu'' init_false, var_init T_bool ''bias'' init_false],
        dtor ''ConvLayer'',
        member_fun T_void ''LoadWeights''
          [var (T_ptr (T_elem float)) ''pfilter'', var (T_ptr (T_elem float)) ''pBias'',
           var (T_ptr T_void) ''scratch''],
        Eval_decl]\<rparr>"

definition SoftMaxLayer_decl :: class_decl where
  "SoftMaxLayer_decl = \<lparr>
     c_name = ''SoftMaxLayer'',
     c_base = Some ''BaseLayer'',
     c_data = [var T_cudnnTensorDescriptor_t ''out_tensor_desc_''],
     c_funs =
       [ctor ''SoftMaxLayer'' [var (T_ptr T_BaseLayer) ''ip''],
        Eval_decl]\<rparr>"

definition BNLayer_decl :: class_decl where
  "BNLayer_decl = \<lparr>
     c_name = ''BNLayer'',
     c_base = Some ''BaseLayer'',
     c_data =
       [var (T_const T_bool) ''use_relu_'',
        var_init (T_ptr (T_elem float)) ''means_'' init_nullptr,
        var_init (T_ptr (T_elem float)) ''variances_'' init_nullptr],
     c_funs =
       [ctor ''BNLayer'' [var (T_ptr T_BaseLayer) ''ip'', var T_bool ''relu''],
        dtor ''BNLayer'',
        member_fun T_void ''LoadWeights''
          [var (T_ptr (T_elem float)) ''cpuMeans'', var (T_ptr (T_elem float)) ''cpuVar''],
        Eval_decl]\<rparr>"

definition FCLayer_decl :: class_decl where
  "FCLayer_decl = \<lparr>
     c_name = ''FCLayer'',
     c_base = Some ''BaseLayer'',
     c_data =
       [var (T_const T_bool) ''use_bias_'',
        var (T_const T_bool) ''use_relu_'',
        var (T_const T_bool) ''use_tanh_'',
        var (T_const T_bool) ''use_sigmoid_'',
        var_init (T_ptr T_DataType) ''weights_'' init_nullptr,
        var_init (T_ptr T_DataType) ''biases_'' init_nullptr],
     c_funs =
       [ctor ''FCLayer''
          [var (T_ptr T_BaseLayer) ''ip'', var T_int ''C'', var T_int ''H'', var T_int ''W'',
           var T_bool ''relu'', var T_bool ''bias'',
           var_init T_bool ''tanh'' init_false, var_init T_bool ''sigmoid'' init_false],
        dtor ''FCLayer'',
        member_fun T_void ''LoadWeights''
          [var (T_ptr (T_elem float)) ''cpuWeight'', var (T_ptr (T_elem float)) ''cpuBias'',
           var (T_ptr T_void) ''scratch''],
        Eval_decl]\<rparr>"

definition SELayer_decl :: class_decl where
  "SELayer_decl = \<lparr>
     c_name = ''SELayer'',
     c_base = Some ''BaseLayer'',
     c_data =
       [var_init (T_ptr T_DataType) ''w1_'' init_nullptr,
        var_init (T_ptr T_DataType) ''b1_'' init_nullptr,
        var_init (T_ptr T_DataType) ''w2_'' init_nullptr,
        var_init (T_ptr T_DataType) ''b2_'' init_nullptr,
        var_init (T_ptr T_DataType) ''bPrev_'' init_nullptr,
        var T_int ''numFc1Out_'',
        var T_bool ''addPrevLayerBias_''],
     c_funs =
       [ctor ''SELayer''
          [var (T_ptr T_BaseLayer) ''ip'', var T_int ''numFc1Out'',
           var_init T_bool ''addPrevLayerBias'' init_false],
        dtor ''SELayer'',
        member_fun T_void ''LoadWeights''
          [var (T_ptr (T_elem float)) ''w1'', var (T_ptr (T_elem float)) ''b1'',
           var (T_ptr (T_elem float)) ''w2'', var (T_ptr (T_elem float)) ''b2'',
           var (T_ptr (T_elem float)) ''prevLayerBias'', var (T_ptr T_void) ''scratch''],
        Eval_decl]\<rparr>"

definition GlobalAvgPoolLayer_decl :: class_decl where
  "GlobalAvgPoolLayer_decl = \<lparr>
     c_name = ''GlobalAvgPoolLayer'',
     c_base = Some ''BaseLayer'',
     c_data = [],
     c_funs =
       [ctor ''GlobalAvgPoolLayer'' [var (T_ptr T_BaseLayer) ''ip''],
        Eval_decl]\<rparr>"

definition GlobalScaleLayer_decl :: class_decl where
  "GlobalScaleLayer_decl = \<lparr>
     c_name = ''GlobalScaleLayer'',
     c_base = Some ''BaseLayer'',
     c_data = [],
     c_funs =
       [ctor ''GlobalScaleLayer'' [var (T_ptr T_BaseLayer) ''ip''],
        Eval_decl]\<rparr>"

text \<open>The classes of the header, in its order.\<close>

definition header_classes :: "class_decl list" where
  "header_classes =
     [BaseLayer_decl, ConvLayer_decl, SoftMaxLayer_decl, BNLayer_decl, FCLayer_decl,
      SELayer_decl, GlobalAvgPoolLayer_decl, GlobalScaleLayer_decl]"

subsection \<open>Reading the declarations\<close>

text \<open>Instantiating the class template at an element type replaces \<open>DataType\<close>.\<close>

fun instantiate :: "DataType \<Rightarrow> ctype \<Rightarrow> ctype" where
  "instantiate dt T_DataType = T_elem dt"
| "instantiate dt (T_const t) = T_const (instantiate dt t)"
| "instantiate dt (T_ptr t) = T_ptr (instantiate dt t)"
| "instantiate dt t = t"

definition find_fun :: "class_decl \<Rightarrow> string \<Rightarrow> fun_decl option" where
  "find_fun cls n = find (\<lambda>f. f_kind f = MemberFunction \<and> f_name f = n) (c_funs cls)"

definition declares_destructor :: "class_decl \<Rightarrow> bool" where
  "declares_destructor cls = list_ex (\<lambda>f. f_kind f = Destructor) (c_funs cls)"

text \<open>
  A parameter buffer is a data member that points to elements: \<open>DataType*\<close> or
  \<open>float*\<close>. (\<open>input_\<close> points to a layer, the cuDNN descriptors are backend objects.)
\<close>

fun is_element_pointer :: "ctype \<Rightarrow> bool" where
  "is_element_pointer (T_ptr T_DataType) = True"
| "is_element_pointer (T_ptr (T_elem dt)) = True"
| "is_element_pointer t = False"

definition parameter_buffers :: "class_decl \<Rightarrow> declarator list" where
  "parameter_buffers cls = filter (\<lambda>d. is_element_pointer (d_type d)) (c_data cls)"

text \<open>The handles of the accelerated math backend, also behind \<open>const\<close> or a pointer.\<close>

fun is_handle :: "ctype \<Rightarrow> bool" where
  "is_handle T_cudnnHandle_t = True"
| "is_handle T_cublasHandle_t = True"
| "is_handle (T_const t) = is_handle t"
| "is_handle (T_ptr t) = is_handle t"
| "is_handle t = False"

definition stores_handle :: "class_decl \<Rightarrow> bool" where
  "stores_handle cls = list_ex (\<lambda>d. is_handle (d_type d)) (c_data cls)"

definition handle_params :: "fun_decl \<Rightarrow> declarator list" where
  "handle_params f = filter (\<lambda>d. is_handle (d_type d)) (f_params f)"

definition param_types :: "fun_decl \<Rightarrow> ctype list" where
  "param_types f = map d_type (f_params f)"

section \<open>Construction\<close>

text \<open>
  Modelled from the spec: the definition of \<open>BaseLayer(int c, int h, int w, BaseLayer* ip)\<close>
  is not in the header. A layer is "constructed with declared output shape (C,H,W) and
  optional upstream layer" and "stores static output shape (C, H, W) fixed at
  construction": each argument is stored in the member it is named after.
\<close>

definition BaseLayer_ctor :: "int32 \<Rightarrow> int32 \<Rightarrow> int32 \<Rightarrow> pointer \<Rightarrow> BaseLayer" where
  "BaseLayer_ctor c h w ip = \<lparr>input = ip, C = c, H = h, W = w\<rparr>"

section \<open>Evaluation\<close>

text \<open>
  No \<open>Eval\<close> has its definition in the header. The two evaluations below are written from
  the specification of the layers, on an idealised tensor type.
\<close>

subsection \<open>Tensors\<close>

text \<open>
  Modelled from the spec: a dimension or count held in an \<open>int\<close>, read as a natural
  number (a negative one counts as no element).
\<close>

definition extent :: "int32 \<Rightarrow> nat" where
  "extent x = nat (sint x)"

text \<open>
  Modelled from the spec: a tensor is "a contiguous device buffer logically shaped (N
  batch, C channels, H height, W width)". A buffer is the list of its elements, with
  element \<open>(n, c, h, w)\<close> at index \<open>((n * C + c) * H + h) * W + w\<close>; the elements are real
  numbers, so the rounding of the 32-bit and 16-bit formats is left out. \<open>plane hw xs k\<close>
  is the \<open>k\<close>-th run of \<open>hw\<close> elements: the spatial plane of one channel of one batch
  element.
\<close>

definition plane :: "nat \<Rightarrow> real list \<Rightarrow> nat \<Rightarrow> real list" where
  "plane hw xs k = take hw (drop (k * hw) xs)"

text \<open>Modelled from the spec: the rectifying activation.\<close>

definition relu :: "real \<Rightarrow> real" where
  "relu x = max 0 x"

subsection \<open>GlobalAvgPoolLayer\<close>

text \<open>
  Modelled from the spec: the averaging kernel behind \<open>GlobalAvgPoolLayer::Eval\<close>, which
  is not in the header. It "reduces each (N, C, H, W) input to (N, C, 1, 1) by averaging
  over H\<times>W per channel per batch element": one output element per plane, the sum of the
  plane divided by its size.
\<close>

definition globalAvgPool :: "nat \<Rightarrow> nat \<Rightarrow> nat \<Rightarrow> real list \<Rightarrow> real list" where
  "globalAvgPool n_batch n_chan hw xs =
     map (\<lambda>k. sum_list (plane hw xs k) / real hw) [0..<n_batch * n_chan]"

text \<open>
  Modelled from the spec: the definition of the constructor \<open>GlobalAvgPoolLayer(ip)\<close> is
  not in the header. The "declared output shape fixes H=W=1" and the channel count is the
  input's; \<open>up\<close> is the upstream layer that \<open>ip\<close> points to.
\<close>

definition GlobalAvgPoolLayer_ctor :: "pointer \<Rightarrow> BaseLayer \<Rightarrow> BaseLayer" where
  "GlobalAvgPoolLayer_ctor ip up = BaseLayer_ctor (GetC up) 1 1 ip"

text \<open>
  Modelled from the spec: \<open>GlobalAvgPoolLayer::Eval\<close>, declared in the header and defined
  elsewhere. The result is the content of the output buffer for the input buffer \<open>xs\<close>
  and batch size \<open>N\<close>; the input planes have the height and width of the upstream layer.
\<close>

definition GlobalAvgPoolLayer_Eval ::
  "BaseLayer \<Rightarrow> BaseLayer \<Rightarrow> int32 \<Rightarrow> real list \<Rightarrow> real list" where
  "GlobalAvgPoolLayer_Eval up L N xs =
     globalAvgPool (extent N) (extent (GetC L)) (extent (GetH up) * extent (GetW up)) xs"

subsection \<open>SELayer\<close>

text \<open>
  \<^verbatim>\<open>
  // fused SE layer
  // (optional bias add +) global avg -> FC1 -> FC2 -> global scale -> add skip
  // connection -> RELU
  DataType* w1_ = nullptr;
  DataType* b1_ = nullptr;
  DataType* w2_ = nullptr;
  DataType* b2_ = nullptr;
  DataType* bPrev_ = nullptr;
  int numFc1Out_;
  bool addPrevLayerBias_;
  \<close>
\<close>

record SELayer = BaseLayer +
  w1 :: pointer
  b1 :: pointer
  w2 :: pointer
  b2 :: pointer
  bPrev :: pointer
  numFc1Out :: int32
  addPrevLayerBias :: bool

text \<open>
  Modelled from the spec: the content of the five device buffers after \<open>LoadWeights\<close>
  (whose definition is not in the header): "four weight/bias arrays (for the two FC
  stages) plus the optional previous-layer bias vector".
\<close>

record SE_weights =
  fc1_weights :: "real list"
  fc1_biases :: "real list"
  fc2_weights :: "real list"
  fc2_biases :: "real list"
  prev_layer_bias :: "real list"

text \<open>Modelled from the spec: the inner product used by the "matrix multiply" of a
  fully-connected stage.\<close>

definition dot :: "real list \<Rightarrow> real list \<Rightarrow> real" where
  "dot xs ys = sum_list (map2 (*) xs ys)"

text \<open>
  Modelled from the spec: a fully-connected stage, a "dense affine transform": output
  \<open>j\<close> is the product of row \<open>j\<close> of the weight matrix with the input, plus bias \<open>j\<close>. The
  spec does not fix the layout of the matrix; rows of \<open>n_in\<close> weights are taken here.
\<close>

definition fully_connected ::
  "nat \<Rightarrow> nat \<Rightarrow> real list \<Rightarrow> real list \<Rightarrow> real list \<Rightarrow> real list" where
  "fully_connected n_out n_in wt bs xs =
     map (\<lambda>j. dot (take n_in (drop (j * n_in) wt)) xs + bs ! j) [0..<n_out]"

text \<open>
  Modelled from the spec: "add a previous-layer bias to the primary input", one bias per
  channel.
\<close>

definition add_channel_bias :: "nat \<Rightarrow> nat \<Rightarrow> real list \<Rightarrow> real list \<Rightarrow> real list" where
  "add_channel_bias n_chan hw bs xs =
     map (\<lambda>i. xs ! i + bs ! ((i div hw) mod n_chan)) [0..<length xs]"

text \<open>
  Modelled from the spec: the squeeze step of \<open>SELayer::Eval\<close>, "(optional) add a
  previous-layer bias to the primary input; global average pool over spatial dimensions
  to produce one value per channel per batch element".
\<close>

definition SE_pooled :: "SE_weights \<Rightarrow> SELayer \<Rightarrow> int32 \<Rightarrow> real list \<Rightarrow> real list" where
  "SE_pooled P L N xs =
     globalAvgPool (extent N) (extent (GetC L)) (extent (GetH L) * extent (GetW L))
       (if addPrevLayerBias L
        then add_channel_bias (extent (GetC L)) (extent (GetH L) * extent (GetW L))
               (prev_layer_bias P) xs
        else xs)"

text \<open>
  Modelled from the spec: the excitation step for batch element \<open>n\<close>, "first
  fully-connected reduction (to a smaller channel count) with rectifying activation;
  second fully-connected expansion (back to full channel count) producing a two-way
  output interpreted as per-channel scale and per-channel shift factors". The result has
  \<open>2 * C\<close> entries; the spec does not fix their order, and the scales are taken to come
  first.
\<close>

definition SE_scale_shift ::
  "SE_weights \<Rightarrow> SELayer \<Rightarrow> int32 \<Rightarrow> real list \<Rightarrow> nat \<Rightarrow> real list" where
  "SE_scale_shift P L N xs n =
     fully_connected (2 * extent (GetC L)) (extent (numFc1Out L)) (fc2_weights P) (fc2_biases P)
       (map relu
          (fully_connected (extent (numFc1Out L)) (extent (GetC L)) (fc1_weights P) (fc1_biases P)
             (take (extent (GetC L)) (drop (n * extent (GetC L)) (SE_pooled P L N xs)))))"

text \<open>
  Modelled from the spec: \<open>SELayer::Eval\<close>, declared in the header and defined elsewhere.
  The last step is to "apply the scale/shift to the ORIGINAL (pre-pooling) primary
  input; add the residual skip input; apply a final rectifying activation", element by
  element: the batch element and the channel of element \<open>i\<close> are found from its index.
  \<open>xs\<close> is the primary input, \<open>skip\<close> the secondary one, the result is the content of the
  output buffer.
\<close>

definition SELayer_Eval ::
  "SE_weights \<Rightarrow> SELayer \<Rightarrow> int32 \<Rightarrow> real list \<Rightarrow> real list \<Rightarrow> real list" where
  "SELayer_Eval P L N xs skip =
     map (\<lambda>i.
        let nc = i div (extent (GetH L) * extent (GetW L));
            n = nc div extent (GetC L);
            c = nc mod extent (GetC L);
            ss = SE_scale_shift P L N xs n
        in relu (ss ! c * xs ! i + ss ! (extent (GetC L) + c) + skip ! i))
       [0..<extent N * extent (GetC L) * (extent (GetH L) * extent (GetW L))]"

section \<open>Properties\<close>

subsection \<open>Output size\<close>

lemma unat_scast_nonneg:
  fixes x :: int32
  assumes "0 \<le> sint x"
  shows "unat (scast x :: size_t) = nat (sint x)"
proof -
  have "sint x < 2 ^ 31"
    using sint_lt [of x] by simp
  then have "sint x < 2 ^ 64"
    by simp
  then have m: "take_bit 64 (sint x) = sint x"
    using assms by (simp add: take_bit_int_eq_self)
  have "unat (scast x :: size_t) = nat (take_bit 64 (sint x))"
    unfolding scast_eq by (simp only: unsigned_of_int) simp
  then show ?thesis
    using m by simp
qed

lemma unat_GetOutputSize_mod:
  assumes "0 \<le> sint N" "0 \<le> sint (C L)" "0 \<le> sint (H L)" "0 \<le> sint (W L)"
  shows "unat (GetOutputSize dt L N) =
           (unat (sizeof dt) * nat (sint N) * nat (sint (C L)) * nat (sint (H L))
              * nat (sint (W L))) mod 2 ^ 64"
proof -
  have "unat (GetOutputSize dt L N) =
          (unat (sizeof dt) * unat (scast N :: size_t) * unat (scast (C L) :: size_t)
             * unat (scast (H L) :: size_t) * unat (scast (W L) :: size_t)) mod 2 ^ 64"
    unfolding GetOutputSize_def
    by (simp add: unat_word_ariths mod_mult_left_eq)
  then show ?thesis
    using assms by (simp add: unat_scast_nonneg)
qed

text \<open>
  C1, as stated, fails: the multiplication is done in \<open>size_t\<close>. A layer of shape
  \<open>C = H = 2^21\<close>, \<open>W = 2^20\<close> with \<open>float\<close> elements has a product of \<open>2^64\<close> bytes for
  \<open>N = 1\<close>, and \<open>GetOutputSize(1)\<close> returns \<open>0\<close>.
\<close>

theorem GetOutputSize_overflow_counterexample:
  "1 \<le> sint (1 :: int32) \<and>
   unat (GetOutputSize float \<lparr>input = None, C = 2097152, H = 2097152, W = 1048576\<rparr> 1)
     \<noteq> unat (sizeof float) * nat (sint (1 :: int32)) * nat (sint (2097152 :: int32))
         * nat (sint (2097152 :: int32)) * nat (sint (1048576 :: int32))"
  by (simp add: GetOutputSize_def)

text \<open>
  C1 (amended): for every layer kind (every extension of \<open>BaseLayer\<close>), every element
  type and every batch size \<open>N \<ge> 1\<close>, if the stored \<open>C\<close>, \<open>H\<close>, \<open>W\<close> are not negative and
  \<open>elementSize * N * C * H * W\<close> is below \<open>2^64\<close>, then \<open>GetOutputSize(N)\<close> returns exactly
  that product.
\<close>

theorem GetOutputSize_exact:
  assumes "1 \<le> sint N" "0 \<le> sint (C L)" "0 \<le> sint (H L)" "0 \<le> sint (W L)"
    and "unat (sizeof dt) * nat (sint N) * nat (sint (C L)) * nat (sint (H L))
           * nat (sint (W L)) < 2 ^ 64"
  shows "unat (GetOutputSize dt L N) =
           unat (sizeof dt) * nat (sint N) * nat (sint (C L)) * nat (sint (H L))
             * nat (sint (W L))"
proof -
  have "0 \<le> sint N"
    using assms(1) by simp
  then show ?thesis
    using assms unat_GetOutputSize_mod [of N L dt] by simp
qed

theorem GetOutputSize_exact_witness:
  "1 \<le> sint (16 :: int32) \<and>
   unat (GetOutputSize half \<lparr>input = None, C = 256, H = 8, W = 8\<rparr> 16) = 524288"
  using GetOutputSize_exact [of 16 "\<lparr>input = None, C = 256, H = 8, W = 8\<rparr>" half]
  by simp

subsection \<open>Declared members\<close>

text \<open>
  The parameter buffers of the convolution layer have the element type of the pipeline:
  this is the rule to which the statistics of \<open>BNLayer\<close> are the exception.
\<close>

lemma ConvLayer_buffers_follow_DataType:
  "map (\<lambda>d. (d_name d, instantiate dt (d_type d))) (parameter_buffers ConvLayer_decl) =
     [(''biases'', T_ptr (T_elem dt)), (''weights'', T_ptr (T_elem dt))]"
  by (simp add: parameter_buffers_def ConvLayer_decl_def var_def var_init_def)

text \<open>
  C5: whatever element type \<open>dt\<close> the class template is instantiated at, the parameter
  buffers of \<open>BNLayer\<close> are \<open>means_\<close> and \<open>variances_\<close>, both of type \<open>float*\<close>, and \<open>float\<close>
  has 32 bits. The type of a member does not depend on the state of the object, so it
  is the same before and after loading; the arrays that \<open>LoadWeights\<close> receives are
  \<open>float\<close> arrays as well.
\<close>

theorem BNLayer_statistics_float:
  "map (\<lambda>d. (d_name d, instantiate dt (d_type d))) (parameter_buffers BNLayer_decl) =
     [(''means_'', T_ptr (T_elem float)), (''variances_'', T_ptr (T_elem float))]
   \<and> 8 * unat (sizeof float) = 32
   \<and> map_option (\<lambda>f. map (instantiate dt) (param_types f))
        (find_fun BNLayer_decl ''LoadWeights'') =
       Some [T_ptr (T_elem float), T_ptr (T_elem float)]"
  by (simp add: parameter_buffers_def BNLayer_decl_def var_def var_init_def find_fun_def
      param_types_def ctor_def dtor_def member_fun_def Eval_decl_def)

text \<open>
  C7: in the base class and in each of the seven layer classes, \<open>Eval\<close> is declared with
  the batch size, the output buffer, the primary input buffer, the secondary input
  buffer (optional, by the comment of the header), the scratch buffer and its size,
  followed by the device compute context, which is the bundle of the two backend
  handles \<open>cudnn\<close> and \<open>cublas\<close>, and with nothing else; it returns \<open>void\<close>; and no class
  has a data member that could hold a handle.
\<close>

theorem Eval_interface:
  "list_all (\<lambda>cls. find_fun cls ''Eval'' = Some Eval_decl \<and> \<not> stores_handle cls)
     header_classes
   \<and> f_ret Eval_decl = Some T_void
   \<and> f_params Eval_decl =
       [var T_int ''N'',
        var (T_ptr T_DataType) ''output'',
        var (T_ptr (T_const T_DataType)) ''input'',
        var (T_ptr (T_const T_DataType)) ''input2'',
        var (T_ptr T_void) ''scratch'',
        var T_size_t ''scratch_size''] @ handle_params Eval_decl
   \<and> map d_type (handle_params Eval_decl) = [T_cudnnHandle_t, T_cublasHandle_t]"
  by (simp add: header_classes_def find_fun_def stores_handle_def handle_params_def
      BaseLayer_decl_def ConvLayer_decl_def SoftMaxLayer_decl_def BNLayer_decl_def
      FCLayer_decl_def SELayer_decl_def GlobalAvgPoolLayer_decl_def GlobalScaleLayer_decl_def
      var_def var_init_def ctor_def dtor_def member_fun_def Eval_decl_def)

text \<open>
  C9: \<open>SoftMaxLayer\<close>, \<open>GlobalAvgPoolLayer\<close> and \<open>GlobalScaleLayer\<close> declare no \<open>LoadWeights\<close>,
  have no parameter buffer among their data members and declare no destructor; the
  constructor and \<open>Eval\<close> are all they declare. So nothing stands between construction
  and evaluation, no parameter is transferred and no buffer is released. (The only data
  member of the three is the tensor descriptor of \<open>SoftMaxLayer\<close>, a backend object.)
\<close>

theorem parameterless_layers:
  "list_all (\<lambda>cls. find_fun cls ''LoadWeights'' = None \<and> parameter_buffers cls = []
       \<and> \<not> declares_destructor cls
       \<and> map f_kind (c_funs cls) = [Constructor, MemberFunction]
       \<and> map f_name (c_funs cls) = [c_name cls, ''Eval''])
     [SoftMaxLayer_decl, GlobalAvgPoolLayer_decl, GlobalScaleLayer_decl]"
  by (simp add: find_fun_def parameter_buffers_def declares_destructor_def
      SoftMaxLayer_decl_def GlobalAvgPoolLayer_decl_def GlobalScaleLayer_decl_def
      var_def var_init_def ctor_def dtor_def member_fun_def Eval_decl_def)

text \<open>
  The four other layer classes declare \<open>LoadWeights\<close> and a destructor, and each of their
  parameter buffers has the default member initialiser \<open>nullptr\<close>.
\<close>

lemma parameter_layers:
  "list_all (\<lambda>cls. find_fun cls ''LoadWeights'' \<noteq> None \<and> parameter_buffers cls \<noteq> []
       \<and> declares_destructor cls
       \<and> list_all (\<lambda>d. d_init d = Some init_nullptr) (parameter_buffers cls))
     [ConvLayer_decl, BNLayer_decl, FCLayer_decl, SELayer_decl]"
  by (simp add: find_fun_def parameter_buffers_def declares_destructor_def
      ConvLayer_decl_def BNLayer_decl_def FCLayer_decl_def SELayer_decl_def
      var_def var_init_def ctor_def dtor_def member_fun_def Eval_decl_def)

subsection \<open>Global average pooling\<close>

lemma sum_list_plane:
  assumes "k * hw + hw \<le> length xs"
  shows "sum_list (plane hw xs k) = (\<Sum>i<hw. xs ! (k * hw + i))"
proof -
  have len: "length (plane hw xs k) = hw"
    using assms by (simp add: plane_def)
  have "sum_list (plane hw xs k) = (\<Sum>i = 0..<hw. plane hw xs k ! i)"
    using sum_list_sum_nth [of "plane hw xs k"] len by simp
  also have "\<dots> = (\<Sum>i = 0..<hw. xs ! (k * hw + i))"
    using assms by (intro sum.cong) (simp_all add: plane_def)
  finally show ?thesis
    by (simp add: atLeast0LessThan)
qed

lemma sum_rows:
  fixes g :: "nat \<Rightarrow> real"
  shows "(\<Sum>i<h * w. g i) = (\<Sum>r<h. \<Sum>s<w. g (r * w + s))"
proof -
  have row: "(\<Sum>s<w. g (r * w + s)) = sum g {r * w..<r * w + w}" for r
  proof -
    have "sum g {0 + r * w..<w + r * w} = (\<Sum>s = 0..<w. g (s + r * w))"
      by (rule sum.shift_bounds_nat_ivl)
    then show ?thesis
      by (simp add: atLeast0LessThan add.commute)
  qed
  have "(\<Sum>r<h. \<Sum>s<w. g (r * w + s)) = (\<Sum>r<h. sum g {r * w..<r * w + w})"
    by (simp only: row)
  also have "\<dots> = sum g {..<h * w}"
    by (rule sum.nat_group)
  finally show ?thesis
    by simp
qed

lemma plane_bound:
  assumes "k < m"
  shows "k * hw + hw \<le> m * (hw :: nat)"
proof -
  have "Suc k \<le> m" using assms by simp
  then have "Suc k * hw \<le> m * hw" by (rule mult_le_mono1)
  then show ?thesis by (simp add: add.commute)
qed

lemma globalAvgPool_nth:
  assumes "length xs = n_batch * n_chan * (h * w)" "n < n_batch" "c < n_chan"
  shows "globalAvgPool n_batch n_chan (h * w) xs ! (n * n_chan + c) =
           (\<Sum>r<h. \<Sum>s<w. xs ! (((n * n_chan + c) * h + r) * w + s)) / real (h * w)"
proof -
  have "n * n_chan + c < n * n_chan + n_chan"
    using assms(3) by simp
  also have "\<dots> \<le> n_batch * n_chan"
    using plane_bound [OF assms(2), of n_chan] .
  finally have k: "n * n_chan + c < n_batch * n_chan" .
  then have "(n * n_chan + c) * (h * w) + h * w \<le> length xs"
    using plane_bound [of "n * n_chan + c" "n_batch * n_chan" "h * w"] assms(1) by simp
  then have "sum_list (plane (h * w) xs (n * n_chan + c)) =
      (\<Sum>i<h * w. xs ! ((n * n_chan + c) * (h * w) + i))"
    by (rule sum_list_plane)
  also have "\<dots> = (\<Sum>r<h. \<Sum>s<w. xs ! ((n * n_chan + c) * (h * w) + (r * w + s)))"
    by (rule sum_rows)
  also have "\<dots> = (\<Sum>r<h. \<Sum>s<w. xs ! (((n * n_chan + c) * h + r) * w + s))"
    by (simp add: algebra_simps)
  finally show ?thesis
    using k by (simp add: globalAvgPool_def)
qed

lemma globalAvgPool_uniform:
  assumes "0 < hw"
  shows "globalAvgPool n_batch n_chan hw (replicate (n_batch * n_chan * hw) v) =
           replicate (n_batch * n_chan) v"
proof -
  have "sum_list (plane hw (replicate (n_batch * n_chan * hw) v) k) / real hw = v"
    if "k < n_batch * n_chan" for k
  proof -
    have "k * hw + hw \<le> n_batch * n_chan * hw"
      using that by (rule plane_bound)
    then have "plane hw (replicate (n_batch * n_chan * hw) v) k = replicate hw v"
      by (simp add: plane_def min_def)
    then show ?thesis
      using assms by (simp add: sum_list_replicate)
  qed
  then show ?thesis
    by (simp add: globalAvgPool_def list_eq_iff_nth_eq)
qed

text \<open>
  C6: a \<open>GlobalAvgPoolLayer\<close> built on an upstream layer of shape \<open>(C, H, W)\<close> has the
  declared output shape \<open>(C, 1, 1)\<close>. Evaluated on an input of \<open>N * C * H * W\<close> elements it
  gives \<open>N * C * 1 * 1\<close> elements, and the element of batch element \<open>n\<close> and channel \<open>c\<close> is
  the sum of the input over the \<open>H * W\<close> positions of that plane divided by \<open>H * W\<close>. If
  every input element is \<open>v\<close> (and the plane is not empty) every output element is \<open>v\<close>,
  and the plane \<open>1, 2, 3, 4\<close> of size \<open>2 * 2\<close> gives \<open>2.5\<close>.
\<close>

theorem GlobalAvgPoolLayer_Eval_mean:
  assumes "length xs = extent N * extent (GetC up) * (extent (GetH up) * extent (GetW up))"
  shows "GetC (GlobalAvgPoolLayer_ctor ip up) = GetC up
       \<and> GetH (GlobalAvgPoolLayer_ctor ip up) = 1
       \<and> GetW (GlobalAvgPoolLayer_ctor ip up) = 1
       \<and> length (GlobalAvgPoolLayer_Eval up (GlobalAvgPoolLayer_ctor ip up) N xs) =
           extent N * extent (GetC up) * extent (GetH (GlobalAvgPoolLayer_ctor ip up))
             * extent (GetW (GlobalAvgPoolLayer_ctor ip up))
       \<and> (\<forall>n<extent N. \<forall>c<extent (GetC up).
             GlobalAvgPoolLayer_Eval up (GlobalAvgPoolLayer_ctor ip up) N xs ! (n * extent (GetC up) + c) =
               (\<Sum>r<extent (GetH up). \<Sum>s<extent (GetW up).
                   xs ! (((n * extent (GetC up) + c) * extent (GetH up) + r) * extent (GetW up) + s))
                 / real (extent (GetH up) * extent (GetW up)))
       \<and> (0 < extent (GetH up) * extent (GetW up) \<and> (\<forall>x\<in>set xs. x = v) \<longrightarrow>
             GlobalAvgPoolLayer_Eval up (GlobalAvgPoolLayer_ctor ip up) N xs =
               replicate (extent N * extent (GetC up)) v)
       \<and> GlobalAvgPoolLayer_Eval \<lparr>input = None, C = 1, H = 2, W = 2\<rparr>
            (GlobalAvgPoolLayer_ctor ip \<lparr>input = None, C = 1, H = 2, W = 2\<rparr>) 1 [1, 2, 3, 4] = [5 / 2]"
proof -
  let ?L = "GlobalAvgPoolLayer_ctor ip up"
  have shape: "GetC ?L = GetC up" "GetH ?L = 1" "GetW ?L = 1"
    by (simp_all add: GlobalAvgPoolLayer_ctor_def BaseLayer_ctor_def GetC_def GetH_def GetW_def)
  have len: "length (GlobalAvgPoolLayer_Eval up ?L N xs) = extent N * extent (GetC up) * extent (GetH ?L) * extent (GetW ?L)"
    by (simp add: shape GlobalAvgPoolLayer_Eval_def globalAvgPool_def extent_def)
  have mean: "\<forall>n<extent N. \<forall>c<extent (GetC up).
             GlobalAvgPoolLayer_Eval up ?L N xs ! (n * extent (GetC up) + c) =
               (\<Sum>r<extent (GetH up). \<Sum>s<extent (GetW up).
                   xs ! (((n * extent (GetC up) + c) * extent (GetH up) + r) * extent (GetW up) + s))
                 / real (extent (GetH up) * extent (GetW up))"
    using globalAvgPool_nth [OF assms]
    by (simp add: GlobalAvgPoolLayer_Eval_def shape)
  have uniform: "GlobalAvgPoolLayer_Eval up ?L N xs = replicate (extent N * extent (GetC up)) v"
    if "0 < extent (GetH up) * extent (GetW up)" "\<forall>x\<in>set xs. x = v"
  proof -
    have "replicate (length xs) v = xs"
      using that(2) by (rule replicate_length_same)
    then have "xs = replicate (extent N * extent (GetC up) * (extent (GetH up) * extent (GetW up))) v"
      using assms by simp
    then show ?thesis
      using globalAvgPool_uniform [OF that(1), of "extent N" "extent (GetC up)" v]
      by (simp add: GlobalAvgPoolLayer_Eval_def shape)
  qed
  have example: "GlobalAvgPoolLayer_Eval \<lparr>input = None, C = 1, H = 2, W = 2\<rparr>
            (GlobalAvgPoolLayer_ctor ip \<lparr>input = None, C = 1, H = 2, W = 2\<rparr>) 1 [1, 2, 3, 4] = [5 / 2]"
    by (simp add: GlobalAvgPoolLayer_Eval_def GlobalAvgPoolLayer_ctor_def BaseLayer_ctor_def
        GetC_def GetH_def GetW_def globalAvgPool_def plane_def extent_def)
  show ?thesis
    using shape len mean uniform example by blast
qed

theorem GlobalAvgPoolLayer_Eval_mean_witness:
  "GlobalAvgPoolLayer_Eval \<lparr>input = None, C = 1, H = 2, W = 2\<rparr>
      (GlobalAvgPoolLayer_ctor None \<lparr>input = None, C = 1, H = 2, W = 2\<rparr>) 1 [7, 7, 7, 7] ! 0
     = (7 + 7 + 7 + 7) / 4
   \<and> GlobalAvgPoolLayer_Eval \<lparr>input = None, C = 1, H = 2, W = 2\<rparr>
      (GlobalAvgPoolLayer_ctor None \<lparr>input = None, C = 1, H = 2, W = 2\<rparr>) 1 [7, 7, 7, 7] = [7]"
  using GlobalAvgPoolLayer_Eval_mean [of "[7, 7, 7, 7]" 1 "\<lparr>input = None, C = 1, H = 2, W = 2\<rparr>" None 7]
  by (simp add: GetC_def GetH_def GetW_def extent_def lessThan_Suc numeral_2_eq_2)

subsection \<open>The fused squeeze-and-excitation layer\<close>

lemma div_plane:
  assumes "t < (m::nat)"
  shows "(a * m + t) div m = a"
proof -
  have "m \<noteq> 0"
    using assms by simp
  then have "(a * m + t) div m = a + t div m"
    by (rule div_mult_self3)
  then show ?thesis
    using assms by simp
qed

lemma nchw_index:
  assumes "c < n_chan" "r < h" "s < (w::nat)"
  shows "(((n * n_chan + c) * h + r) * w + s) div (h * w) = n * n_chan + c"
    and "(n * n_chan + c) div n_chan = n"
    and "(n * n_chan + c) mod n_chan = c"
proof -
  have "r * w + s < r * w + w"
    using assms(3) by simp
  also have "\<dots> \<le> h * w"
    using plane_bound [OF assms(2), of w] .
  finally have lt: "r * w + s < h * w" .
  have e: "((n * n_chan + c) * h + r) * w + s = (n * n_chan + c) * (h * w) + (r * w + s)"
    by (simp add: algebra_simps)
  have "((n * n_chan + c) * (h * w) + (r * w + s)) div (h * w) = n * n_chan + c"
    using lt by (rule div_plane)
  then show "(((n * n_chan + c) * h + r) * w + s) div (h * w) = n * n_chan + c"
    by (simp only: e)
  show "(n * n_chan + c) div n_chan = n"
    using assms(1) by simp
  show "(n * n_chan + c) mod n_chan = c"
    using assms(1) by simp
qed

lemma nchw_bound:
  assumes "n < n_batch" "c < n_chan" "r < h" "s < (w::nat)"
  shows "((n * n_chan + c) * h + r) * w + s < n_batch * n_chan * (h * w)"
proof -
  have "n * n_chan + c < n * n_chan + n_chan"
    using assms(2) by simp
  also have "\<dots> \<le> n_batch * n_chan"
    using plane_bound [OF assms(1), of n_chan] .
  finally have k: "n * n_chan + c < n_batch * n_chan" .
  have "(n * n_chan + c) * h + r < (n * n_chan + c) * h + h"
    using assms(3) by simp
  also have "\<dots> \<le> n_batch * n_chan * h"
    using plane_bound [OF k, of h] .
  finally have k2: "(n * n_chan + c) * h + r < n_batch * n_chan * h" .
  have "((n * n_chan + c) * h + r) * w + s < ((n * n_chan + c) * h + r) * w + w"
    using assms(4) by simp
  also have "\<dots> \<le> n_batch * n_chan * h * w"
    using plane_bound [OF k2, of w] .
  finally show ?thesis
    by (simp add: mult.assoc)
qed

lemma SELayer_Eval_nth:
  assumes "n < extent N" "c < extent (GetC L)" "r < extent (GetH L)" "s < extent (GetW L)"
  shows "SELayer_Eval P L N xs skip ! (((n * extent (GetC L) + c) * extent (GetH L) + r) * extent (GetW L) + s) =
    relu (SE_scale_shift P L N xs n ! c * xs ! (((n * extent (GetC L) + c) * extent (GetH L) + r) * extent (GetW L) + s)
          + SE_scale_shift P L N xs n ! (extent (GetC L) + c)
          + skip ! (((n * extent (GetC L) + c) * extent (GetH L) + r) * extent (GetW L) + s))"
  using nchw_bound [OF assms] nchw_index [OF assms(2-4), of n]
  by (simp add: SELayer_Eval_def Let_def)

lemma length_SE_pooled:
  "length (SE_pooled P L N xs) = extent N * extent (GetC L)"
  by (simp add: SE_pooled_def globalAvgPool_def)

lemma SE_pooled_nth:
  assumes "length xs = extent N * extent (GetC L) * (extent (GetH L) * extent (GetW L))"
    and "n < extent N" "c < extent (GetC L)"
  shows "take (extent (GetC L)) (drop (n * extent (GetC L)) (SE_pooled P L N xs)) ! c =
     (\<Sum>r<extent (GetH L). \<Sum>s<extent (GetW L).
         (if addPrevLayerBias L
          then add_channel_bias (extent (GetC L)) (extent (GetH L) * extent (GetW L)) (prev_layer_bias P) xs
          else xs) ! (((n * extent (GetC L) + c) * extent (GetH L) + r) * extent (GetW L) + s))
       / real (extent (GetH L) * extent (GetW L))"
proof -
  let ?ys = "if addPrevLayerBias L
          then add_channel_bias (extent (GetC L)) (extent (GetH L) * extent (GetW L)) (prev_layer_bias P) xs
          else xs"
  have len: "length ?ys = extent N * extent (GetC L) * (extent (GetH L) * extent (GetW L))"
    using assms(1) by (simp add: add_channel_bias_def)
  have "n * extent (GetC L) + c < n * extent (GetC L) + extent (GetC L)"
    using assms(3) by simp
  also have "\<dots> \<le> extent N * extent (GetC L)"
    using plane_bound [OF assms(2), of "extent (GetC L)"] .
  finally have "n * extent (GetC L) + c < length (SE_pooled P L N xs)"
    by (simp add: length_SE_pooled)
  then have "take (extent (GetC L)) (drop (n * extent (GetC L)) (SE_pooled P L N xs)) ! c =
      SE_pooled P L N xs ! (n * extent (GetC L) + c)"
    using assms(3) by simp
  also have "\<dots> = globalAvgPool (extent N) (extent (GetC L)) (extent (GetH L) * extent (GetW L)) ?ys
      ! (n * extent (GetC L) + c)"
    by (simp add: SE_pooled_def)
  finally show ?thesis
    using globalAvgPool_nth [OF len assms(2,3)] by simp
qed

lemma add_channel_bias_nth:
  assumes "length xs = n_batch * n_chan * (h * w)" "n < n_batch" "c < n_chan" "r < h" "s < w"
  shows "add_channel_bias n_chan (h * w) bs xs ! (((n * n_chan + c) * h + r) * w + s) =
           xs ! (((n * n_chan + c) * h + r) * w + s) + bs ! c"
  using nchw_bound [OF assms(2-5)] nchw_index [OF assms(3-5), of n] assms(1)
  by (simp add: add_channel_bias_def)

text \<open>
  C2: for the element \<open>i\<close> at batch element \<open>n\<close>, channel \<open>c\<close>, row \<open>r\<close> and column \<open>s\<close>, the
  output of \<open>SELayer::Eval\<close> is obtained in this order: \<open>biased\<close> is the primary input,
  with the bias of the previous layer added to channel \<open>c\<close> if the layer was constructed
  with \<open>addPrevLayerBias\<close>; \<open>pooled\<close> holds for each channel the mean of \<open>biased\<close> over the
  plane of batch element \<open>n\<close>; \<open>fc1\<close> is the first fully-connected stage applied to
  \<open>pooled\<close>, rectified, with \<open>numFc1Out\<close> outputs; \<open>fc2\<close> is the second stage applied to
  \<open>fc1\<close>, with \<open>2 * C\<close> outputs, a scale and a shift per channel; and the output element is
  the rectified sum of the scaled original input element, the shift and the element of
  the skip input.
\<close>

theorem SELayer_Eval_sequence:
  assumes "length xs = extent N * extent (GetC L) * (extent (GetH L) * extent (GetW L))"
    and "n < extent N" "c < extent (GetC L)" "r < extent (GetH L)" "s < extent (GetW L)"
  shows
    "let i = ((n * extent (GetC L) + c) * extent (GetH L) + r) * extent (GetW L) + s;
         biased = (if addPrevLayerBias L
                   then add_channel_bias (extent (GetC L)) (extent (GetH L) * extent (GetW L))
                          (prev_layer_bias P) xs
                   else xs);
         pooled = take (extent (GetC L)) (drop (n * extent (GetC L)) (SE_pooled P L N xs));
         fc1 = map relu (fully_connected (extent (numFc1Out L)) (extent (GetC L))
                           (fc1_weights P) (fc1_biases P) pooled);
         fc2 = fully_connected (2 * extent (GetC L)) (extent (numFc1Out L))
                 (fc2_weights P) (fc2_biases P) fc1
     in length (SELayer_Eval P L N xs skip) = extent N * extent (GetC L) * (extent (GetH L) * extent (GetW L))
      \<and> (addPrevLayerBias L \<longrightarrow> biased ! i = xs ! i + prev_layer_bias P ! c)
      \<and> (\<not> addPrevLayerBias L \<longrightarrow> biased = xs)
      \<and> pooled ! c =
          (\<Sum>r'<extent (GetH L). \<Sum>s'<extent (GetW L).
              biased ! (((n * extent (GetC L) + c) * extent (GetH L) + r') * extent (GetW L) + s'))
            / real (extent (GetH L) * extent (GetW L))
      \<and> length fc1 = extent (numFc1Out L)
      \<and> length fc2 = 2 * extent (GetC L)
      \<and> SELayer_Eval P L N xs skip ! i =
          relu (fc2 ! c * xs ! i + fc2 ! (extent (GetC L) + c) + skip ! i)"
proof -
  have len: "length (SELayer_Eval P L N xs skip) = extent N * extent (GetC L) * (extent (GetH L) * extent (GetW L))"
    by (simp add: SELayer_Eval_def)
  have bias: "add_channel_bias (extent (GetC L)) (extent (GetH L) * extent (GetW L)) (prev_layer_bias P) xs
       ! (((n * extent (GetC L) + c) * extent (GetH L) + r) * extent (GetW L) + s) =
     xs ! (((n * extent (GetC L) + c) * extent (GetH L) + r) * extent (GetW L) + s) + prev_layer_bias P ! c"
    using assms by (rule add_channel_bias_nth)
  have lens: "length (map relu (fully_connected (extent (numFc1Out L)) (extent (GetC L))
                           (fc1_weights P) (fc1_biases P) ys)) = extent (numFc1Out L)"
     "length (fully_connected (2 * extent (GetC L)) (extent (numFc1Out L))
                 (fc2_weights P) (fc2_biases P) zs) = 2 * extent (GetC L)" for ys zs
    by (simp_all add: fully_connected_def)
  show ?thesis
    unfolding Let_def
    using len bias lens SE_pooled_nth [OF assms(1-3), of P] SELayer_Eval_nth [OF assms(2-5), of P xs skip]
    by (simp add: SE_scale_shift_def)
qed

theorem SELayer_Eval_sequence_witness:
  "SELayer_Eval
     \<lparr>fc1_weights = [1, -1], fc1_biases = [0], fc2_weights = [1, 2, 3, 4],
      fc2_biases = [0, 0, 1, 1], prev_layer_bias = [10, 0]\<rparr>
     \<lparr>input = None, C = 2, H = 1, W = 2, w1 = None, b1 = None, w2 = None, b2 = None,
      bPrev = None, numFc1Out = 1, addPrevLayerBias = True\<rparr>
     1 [1, 3, 5, 7] [0, 0, 0, - 200] ! 3 = 0
   \<and> SELayer_Eval
     \<lparr>fc1_weights = [1, -1], fc1_biases = [0], fc2_weights = [1, 2, 3, 4],
      fc2_biases = [0, 0, 1, 1], prev_layer_bias = [10, 0]\<rparr>
     \<lparr>input = None, C = 2, H = 1, W = 2, w1 = None, b1 = None, w2 = None, b2 = None,
      bPrev = None, numFc1Out = 1, addPrevLayerBias = True\<rparr>
     1 [1, 3, 5, 7] [0, 0, 0, - 200] ! 2 = 85"
  using SELayer_Eval_sequence [of "[1, 3, 5, 7]" 1
      "\<lparr>input = None, C = 2, H = 1, W = 2, w1 = None, b1 = None, w2 = None, b2 = None,
        bPrev = None, numFc1Out = 1, addPrevLayerBias = True\<rparr>" 0 1 0 1
      "\<lparr>fc1_weights = [1, -1], fc1_biases = [0], fc2_weights = [1, 2, 3, 4],
        fc2_biases = [0, 0, 1, 1], prev_layer_bias = [10, 0]\<rparr>" "[0, 0, 0, - 200]"]
    SELayer_Eval_sequence [of "[1, 3, 5, 7]" 1
      "\<lparr>input = None, C = 2, H = 1, W = 2, w1 = None, b1 = None, w2 = None, b2 = None,
        bPrev = None, numFc1Out = 1, addPrevLayerBias = True\<rparr>" 0 1 0 0
      "\<lparr>fc1_weights = [1, -1], fc1_biases = [0], fc2_weights = [1, 2, 3, 4],
        fc2_biases = [0, 0, 1, 1], prev_layer_bias = [10, 0]\<rparr>" "[0, 0, 0, - 200]"]
  by (simp add: Let_def GetC_def GetH_def GetW_def extent_def SE_pooled_def globalAvgPool_def
      plane_def add_channel_bias_def fully_connected_def dot_def relu_def upt_rec numeral_2_eq_2
      numeral_3_eq_3)


end
